theory Spec2Isabelle
  imports Main "HOL-Library.Sublist" "HOL-Library.AList"
begin

section \<open>Python values used by \<open>spacy/cli/validate.py\<close>\<close>

text \<open>
  Strings are lists of characters. A Python dict is an association list holding its
  items in insertion order, looked up with \<open>map_of\<close>; the keys of a dict are distinct.
  A Python set is a duplicate-free list; Python leaves the iteration order of a set
  open, so no statement below depends on the order of such a list.
\<close>

type_synonym ('k, 'v) dict = "('k \<times> 'v) list"

datatype py_error = KeyError | IndexError

text \<open>\<open>k in d\<close>\<close>

definition has_key :: "('k, 'v) dict \<Rightarrow> 'k \<Rightarrow> bool" where
  "has_key d k = (map_of d k \<noteq> None)"

text \<open>\<open>d[k]\<close>: raises KeyError when the key is absent.\<close>

definition subscript :: "('k, 'v) dict \<Rightarrow> 'k \<Rightarrow> py_error + 'v" where
  "subscript d k = (case map_of d k of None \<Rightarrow> Inl KeyError | Some v \<Rightarrow> Inr v)"

text \<open>\<open>d.get(k, default)\<close>\<close>

definition dict_get :: "('k, 'v) dict \<Rightarrow> 'k \<Rightarrow> 'v \<Rightarrow> 'v" where
  "dict_get d k dflt = (case map_of d k of None \<Rightarrow> dflt | Some v \<Rightarrow> v)"

text \<open>The subscript \<open>xs[0]\<close> of a list; the empty list has no such element.\<close>

fun index0 :: "'a list \<Rightarrow> py_error + 'a" where
  "index0 [] = Inl IndexError"
| "index0 (x # xs) = Inr x"

text \<open>
  \<open>s.replace(old, new)\<close>: scanning from the left, every occurrence of \<open>old\<close> that does
  not overlap an earlier replaced one becomes \<open>new\<close>. For the empty pattern Python
  puts \<open>new\<close> in front of every character and at the end.
\<close>

function str_replace :: "string \<Rightarrow> string \<Rightarrow> string \<Rightarrow> string" where
  "str_replace old new s =
     (if old = [] then new @ concat (map (\<lambda>c. c # new) s)
      else if prefix old s then new @ str_replace old new (drop (length old) s)
      else (case s of [] \<Rightarrow> [] | c # cs \<Rightarrow> c # str_replace old new cs))"
  by pat_completeness auto
termination
  by (relation "measure (\<lambda>(old, new, s). length s)") (auto simp: prefix_def)

declare str_replace.simps [simp del]

text \<open>\<open>sep.join(xs)\<close>\<close>

fun str_join :: "string \<Rightarrow> string list \<Rightarrow> string" where
  "str_join sep [] = []"
| "str_join sep [x] = x"
| "str_join sep (x # y # ys) = x @ sep @ str_join sep (y # ys)"

text \<open>\<open>old in s\<close> for strings: \<open>old\<close> occurs in \<open>s\<close> as a contiguous piece.\<close>

fun occurs :: "string \<Rightarrow> string \<Rightarrow> bool" where
  "occurs old [] = (old = [])"
| "occurs old (c # cs) = (prefix old (c # cs) \<or> occurs old cs)"

section \<open>The version normalizer and the matrix lookup\<close>

text \<open>
  \<^verbatim>\<open>
  def reformat_version(version):
      if version.endswith('-alpha'):
          return version.replace('-alpha', 'a0')
      return version.replace('-alpha', 'a')
  \<close>
\<close>

definition reformat_version :: "string \<Rightarrow> string" where
  "reformat_version version =
     (if suffix ''-alpha'' version then str_replace ''-alpha'' ''a0'' version
      else str_replace ''-alpha'' ''a'' version)"

text \<open>
  \<^verbatim>\<open>
  def is_compat(compat, name, version):
      return name in compat and version in compat[name]
  \<close>
  The conjunction is evaluated left to right, so \<open>compat[name]\<close> is read only when the
  key is present and never raises. (The parameter is written \<open>compat'\<close>: the library
  already has a constant \<open>compat\<close>.)
\<close>

definition is_compat :: "(string, string list) dict \<Rightarrow> string \<Rightarrow> string \<Rightarrow> bool" where
  "is_compat compat' name version =
     (if has_key compat' name
      then (case subscript compat' name of Inl e \<Rightarrow> False | Inr vs \<Rightarrow> version \<in> set vs)
      else False)"

section \<open>Rows of the report\<close>

text \<open>
  What a scanner records for one installed model: the dict with the keys
  \<open>'name'\<close>, \<open>'version'\<close> and \<open>'compat'\<close>.
\<close>

record model_data =
  d_name :: string
  d_version :: string
  d_compat :: bool

text \<open>
  The format field \<open>{:<n}\<close>: the text, padded on the right with spaces to width n. The
  width counts the characters of the list; Python counts code points, which is the
  same for ASCII text.
\<close>

definition ljust :: "nat \<Rightarrow> string \<Rightarrow> string" where
  "ljust n s = s @ replicate (n - length s) (CHR '' '')"

text \<open>
  \<^verbatim>\<open>
  def get_row(*args):
      tpl_row = '    {:<10}' + ('  {:<20}' * 4)
      return tpl_row.format(*args)
  \<close>
  Every call of the file passes five strings.
\<close>

definition get_row :: "string \<Rightarrow> string \<Rightarrow> string \<Rightarrow> string \<Rightarrow> string \<Rightarrow> string" where
  "get_row a b c d e =
     ''    '' @ ljust 10 a @ ''  '' @ ljust 20 b @ ''  '' @ ljust 20 c
       @ ''  '' @ ljust 20 d @ ''  '' @ ljust 20 e"

definition tpl_red :: "string \<Rightarrow> string" where
  "tpl_red s = CHR 0x1B # ''[38;5;1m'' @ s @ CHR 0x1B # ''[0m''"

definition tpl_green :: "string \<Rightarrow> string" where
  "tpl_green s = CHR 0x1B # ''[38;5;2m'' @ s @ CHR 0x1B # ''[0m''"

text \<open>
  \<^verbatim>\<open>
  def get_model_row(compat, name, data, type='package'):
      if data['compat']:
          comp = tpl_green.format(locale_escape(CHECK, errors='ignore'))
          version = tpl_green.format(data['version'])
      else:
          comp = '--> {}'.format(compat.get(data['name'], ['n/a'])[0])
          version = tpl_red.format(data['version'])
      return get_row(type, name, data['name'], version, comp)
  \<close>
  \<open>tick\<close> is the check mark as \<open>locale_escape\<close> (of \<open>spacy.compat\<close>, not in this file)
  returns it for the terminal's encoding.
\<close>

definition get_model_row ::
  "string \<Rightarrow> (string, string list) dict \<Rightarrow> string \<Rightarrow> model_data \<Rightarrow> string \<Rightarrow> py_error + string" where
  "get_model_row tick compat' name data type =
     (if d_compat data
      then Inr (get_row type name (d_name data) (tpl_green (d_version data)) (tpl_green tick))
      else (case index0 (dict_get compat' (d_name data) [''n/a'']) of
              Inl e \<Rightarrow> Inl e
            | Inr v \<Rightarrow>
                Inr (get_row type name (d_name data) (tpl_red (d_version data)) (''--> '' @ v))))"

section \<open>The link scanner\<close>

text \<open>
  The data directory as the scanner sees it. An entry of the directory has the last
  part of its path, whether it is a directory, and the decoded content of its
  \<open>meta.json\<close> when that file exists.

  Modelled from the spec: \<open>get_data_path\<close> and \<open>read_json\<close> of \<open>spacy.util\<close> are not in
  this file. \<open>get_data_path()\<close> gives the local data directory, which may be absent
  (\<open>None\<close>); \<open>read_json(meta_path)\<close> gives the decoded metadata of an existing file, a
  dict of strings.

  The states described here are those in which every \<open>meta.json\<close> decodes to a dict
  whose values are strings. A file that does not decode, or a field that is not a
  string, is not among them, so nothing below says for which states of a real file
  system the scanner returns.
\<close>

record dir_entry =
  entry_name :: string
  entry_is_dir :: bool
  entry_meta :: "(string, string) dict option"

record data_dir =
  dir_path :: string
  dir_entries :: "dir_entry list"

text \<open>
  \<^verbatim>\<open>
  def is_model_path(model_path):
      exclude = ['cache', 'pycache', '__pycache__']
      name = model_path.parts[-1]
      return (model_path.is_dir() and name not in exclude
              and not name.startswith('.'))
  \<close>
\<close>

definition is_model_path :: "dir_entry \<Rightarrow> bool" where
  "is_model_path model_path =
     (let exclude = [''cache'', ''pycache'', ''__pycache__''];
          name = entry_name model_path
      in entry_is_dir model_path \<and> name \<notin> set exclude \<and> \<not> prefix ''.'' name)"

text \<open>
  \<^verbatim>\<open>
  def get_model_links(compat):
      links = {}
      data_path = get_data_path()
      if data_path:
          models = [p for p in data_path.iterdir() if is_model_path(p)]
          for model in models:
              meta_path = Path(model) / 'meta.json'
              if not meta_path.exists():
                  continue
              meta = read_json(meta_path)
              link = model.parts[-1]
              name = meta['lang'] + '_' + meta['name']
              links[link] = {'name': name, 'version': meta['version'],
                             'compat': is_compat(compat, name, meta['version'])}
      return links
  \<close>
  The loop is \<open>links_loop\<close>, with the dict built so far as its last argument; a missing
  key of \<open>meta\<close> raises KeyError and ends the scan.
\<close>

fun links_loop ::
  "(string, string list) dict \<Rightarrow> dir_entry list \<Rightarrow> (string, model_data) dict
     \<Rightarrow> py_error + (string, model_data) dict" where
  "links_loop compat' [] links = Inr links"
| "links_loop compat' (model # models) links =
     (case entry_meta model of
        None \<Rightarrow> links_loop compat' models links
      | Some meta \<Rightarrow>
          (let link = entry_name model in
           case subscript meta ''lang'' of Inl e \<Rightarrow> Inl e | Inr lang \<Rightarrow>
           case subscript meta ''name'' of Inl e \<Rightarrow> Inl e | Inr mname \<Rightarrow>
           let name = lang @ ''_'' @ mname in
           case subscript meta ''version'' of Inl e \<Rightarrow> Inl e | Inr version \<Rightarrow>
             links_loop compat' models
               (AList.update link
                  \<lparr>d_name = name, d_version = version,
                   d_compat = is_compat compat' name version\<rparr> links)))"

definition get_model_links ::
  "(string, string list) dict \<Rightarrow> data_dir option \<Rightarrow> py_error + (string, model_data) dict" where
  "get_model_links compat' data_path =
     (case data_path of
        None \<Rightarrow> Inr []
      | Some dir \<Rightarrow> links_loop compat' (filter is_model_path (dir_entries dir)) [])"

section \<open>The package scanner\<close>

text \<open>
  \<^verbatim>\<open>
  def get_model_pkgs(compat, all_models):
      pkgs = {}
      for pkg_name, pkg_data in pkg_resources.working_set.by_key.items():
          package = pkg_name.replace('-', '_')
          if package in all_models:
              version = pkg_data.version
              pkgs[pkg_name] = {'name': package, 'version': version,
                                'compat': is_compat(compat, package, version)}
      return pkgs
  \<close>
  \<open>working_set\<close> is the registry of installed packages, \<open>working_set.by_key\<close>: a dict from
  the package name to the installed version.
\<close>

fun pkgs_loop ::
  "(string, string list) dict \<Rightarrow> string set \<Rightarrow> (string, string) dict
     \<Rightarrow> (string, model_data) dict \<Rightarrow> (string, model_data) dict" where
  "pkgs_loop compat' all_models [] pkgs = pkgs"
| "pkgs_loop compat' all_models ((pkg_name, pkg_version) # rest) pkgs =
     (let package = str_replace ''-'' ''_'' pkg_name in
      if package \<in> all_models
      then pkgs_loop compat' all_models rest
             (AList.update pkg_name
                \<lparr>d_name = package, d_version = pkg_version,
                 d_compat = is_compat compat' package pkg_version\<rparr> pkgs)
      else pkgs_loop compat' all_models rest pkgs)"

definition get_model_pkgs ::
  "(string, string list) dict \<Rightarrow> string set \<Rightarrow> (string, string) dict
     \<Rightarrow> (string, model_data) dict" where
  "get_model_pkgs compat' all_models working_set = pkgs_loop compat' all_models working_set []"

text \<open>
  The spec's words for the normalized name of a package, "hyphens replaced with
  underscores", and the entry the scanner records for a package of that name.
\<close>

definition underscored :: "string \<Rightarrow> string" where
  "underscored s = map (\<lambda>c. if c = CHR ''-'' then CHR ''_'' else c) s"

definition pkg_entry :: "(string, string list) dict \<Rightarrow> string \<Rightarrow> string \<Rightarrow> model_data" where
  "pkg_entry current_compat pkg_name pkg_version =
     \<lparr>d_name = underscored pkg_name, d_version = pkg_version,
      d_compat = is_compat current_compat (underscored pkg_name) pkg_version\<rparr>"

section \<open>The command\<close>

text \<open>
  What the command reads from its surroundings: the URL of the compatibility table
  (\<open>about.__compatibility__\<close>), the version of the host library (\<open>about.__version__\<close>),
  the response to the HTTP GET with its status code and decoded JSON body, the
  directory of the installed library (\<open>path2str(Path(__file__).parent.parent)\<close>), the
  data directory, the registry of installed packages and the check mark.
\<close>

record response =
  status_code :: int
  json :: "(string, (string, (string, string list) dict) dict) dict"

record env =
  env_url :: string
  env_version :: string
  env_response :: response
  env_root :: string
  env_data_path :: "data_dir option"
  env_working_set :: "(string, string) dict"
  env_tick :: string

text \<open>
  What the command does to its surroundings, in order: the HTTP request, the lines it
  prints with \<open>print\<close>, and the messages it hands to \<open>prints\<close> with their title. A run
  ends by returning (\<open>None\<close>), by \<open>sys.exit\<close> with a code, or by an exception that
  nothing catches.
\<close>

datatype event = HttpGet string | Print string | Prints "string option" "string list"

datatype stop = SysExit int | Raised py_error

type_synonym run = "event list \<times> stop option"

definition skip :: run where
  "skip = ([], None)"

definition raise :: "py_error \<Rightarrow> run" where
  "raise e = ([], Some (Raised e))"

definition print_line :: "string \<Rightarrow> run" where
  "print_line s = ([Print s], None)"

text \<open>One statement after another: what follows a stopped run does not happen.\<close>

definition then_run :: "run \<Rightarrow> run \<Rightarrow> run" where
  "then_run a b = (case snd a of Some s \<Rightarrow> a | None \<Rightarrow> (fst a @ fst b, snd b))"

text \<open>
  Modelled from the spec: \<open>prints\<close> of \<open>spacy.util\<close> is not in this file. It prints the
  texts under the title, when one is given, and with \<open>exits\<close> given it terminates the
  command with that exit code ("prints a titled error message and terminates with
  exit code 1", "prints no models found and exits cleanly").
\<close>

definition prints :: "string list \<Rightarrow> string option \<Rightarrow> int option \<Rightarrow> run" where
  "prints texts title exits = ([Prints title texts], map_option SysExit exits)"

text \<open>\<open>'%d' % n\<close>: the decimal digits of an integer, with a minus sign below zero.\<close>

function str_of_nat :: "nat \<Rightarrow> string" where
  "str_of_nat n =
     (if n < 10 then [''0123456789'' ! n]
      else str_of_nat (n div 10) @ [''0123456789'' ! (n mod 10)])"
  by pat_completeness auto
termination
  by (relation "measure id") auto

declare str_of_nat.simps [simp del]

definition str_of_int :: "int \<Rightarrow> string" where
  "str_of_int i = (if i < 0 then ''-'' @ str_of_nat (nat (- i)) else str_of_nat (nat i))"

text \<open>
  Lines 22 to 26: the set of the model names of every host version, and the matrix
  with every version string normalized. The assignment
  \<open>compat[spacy_v][model] = [reformat_version(v) for v in model_vs]\<close> replaces the value
  of a key that is there, so the keys and their order stay.
\<close>

definition all_models_of :: "(string, (string, string list) dict) dict \<Rightarrow> string set" where
  "all_models_of compat0 = set (concat (map (\<lambda>(spacy_v, models). map fst models) compat0))"

definition reformat_matrix ::
  "(string, (string, string list) dict) dict \<Rightarrow> (string, (string, string list) dict) dict" where
  "reformat_matrix compat0 =
     map (\<lambda>(spacy_v, models).
            (spacy_v, map (\<lambda>(model, model_vs). (model, map reformat_version model_vs)) models))
       compat0"

text \<open>
  Lines 31 to 37:
  \<^verbatim>\<open>
  incompat_links = {l for l, d in model_links.items() if not d['compat']}
  incompat_models = {d['name'] for _, d in model_pkgs.items()
                     if not d['compat']}
  incompat_models.update([d['name'] for _, d in model_links.items()
                          if not d['compat']])
  na_models = [m for m in incompat_models if m not in current_compat]
  update_models = [m for m in incompat_models if m in current_compat]
  \<close>
\<close>

definition incompat_links :: "(string, model_data) dict \<Rightarrow> string list" where
  "incompat_links model_links = remdups [l. (l, d) \<leftarrow> model_links, \<not> d_compat d]"

definition incompat_models ::
  "(string, model_data) dict \<Rightarrow> (string, model_data) dict \<Rightarrow> string list" where
  "incompat_models model_pkgs model_links =
     remdups ([d_name d. (_, d) \<leftarrow> model_pkgs, \<not> d_compat d]
              @ [d_name d. (_, d) \<leftarrow> model_links, \<not> d_compat d])"

definition na_models :: "string list \<Rightarrow> (string, string list) dict \<Rightarrow> string list" where
  "na_models incompat current_compat = [m \<leftarrow> incompat. \<not> has_key current_compat m]"

definition update_models :: "string list \<Rightarrow> (string, string list) dict \<Rightarrow> string list" where
  "update_models incompat current_compat = [m \<leftarrow> incompat. has_key current_compat m]"

text \<open>
  The two loops that print the table, lines 43 to 46: a row that cannot be rendered
  raises after the rows before it were printed.
\<close>

fun print_rows ::
  "string \<Rightarrow> (string, string list) dict \<Rightarrow> string \<Rightarrow> (string, model_data) dict \<Rightarrow> run" where
  "print_rows tick current_compat type [] = skip"
| "print_rows tick current_compat type ((name, data) # rest) =
     (case get_model_row tick current_compat name data type of
        Inl e \<Rightarrow> raise e
      | Inr row \<Rightarrow> then_run (print_line row) (print_rows tick current_compat type rest))"

text \<open>
  Lines 31 to 63 of \<open>validate\<close>: the classification and the report, from the current
  sub-map and the two scanners' outputs. \<open>path2str(get_data_path())\<close> of the last
  message is the path of the data directory; an incompatible link exists only when
  the directory does.
\<close>

definition report ::
  "env \<Rightarrow> (string, string list) dict \<Rightarrow> (string, model_data) dict \<Rightarrow> (string, model_data) dict
     \<Rightarrow> run" where
  "report e current_compat model_links model_pkgs =
     (let incompat_links' = incompat_links model_links;
          incompat_models' = incompat_models model_pkgs model_links;
          na_models' = na_models incompat_models' current_compat;
          update_models' = update_models incompat_models' current_compat
      in
      then_run (prints [env_root e]
                  (Some (''Installed models (spaCy v'' @ env_version e @ '')'')) None)
     (then_run (if model_links \<noteq> [] \<or> model_pkgs \<noteq> []
                then then_run (print_line (get_row ''TYPE'' ''NAME'' ''MODEL'' ''VERSION'' ''''))
                    (then_run (print_rows (env_tick e) current_compat ''package'' model_pkgs)
                              (print_rows (env_tick e) current_compat ''link'' model_links))
                else prints [''No models found in your current environment.''] None (Some 0))
     (then_run (if update_models' \<noteq> []
                then then_run
                       (print_line (''\<newline>    Use the following commands to update the model packages:''))
                       (print_line (str_join ''\<newline>''
                          (map (\<lambda>pkg. ''    python -m spacy download '' @ pkg) update_models')))
                else skip)
     (then_run (if na_models' \<noteq> []
                then prints [''The following models are not available for spaCy v''
                             @ env_version e @ '': '' @ str_join '', '' na_models'] None None
                else skip)
               (if incompat_links' \<noteq> []
                then prints [''You may also want to overwrite the incompatible links using ''
                             @ ''the `python -m spacy link` command with `--force`, or remove ''
                             @ ''them from the data directory. Data path: ''
                             @ (case env_data_path e of
                                  Some dir \<Rightarrow> dir_path dir | None \<Rightarrow> ''None'')] None None
                else skip)))))"

text \<open>
  \<^verbatim>\<open>
  def validate(cmd):
      r = requests.get(about.__compatibility__)
      if r.status_code != 200:
          prints("Couldn't fetch compatibility table.",
                 title="Server error (%d)" % r.status_code, exits=1)
      compat = r.json()['spacy']
      all_models = set()
      for spacy_v, models in dict(compat).items():
          all_models.update(models.keys())
          for model, model_vs in models.items():
              compat[spacy_v][model] = [reformat_version(v) for v in model_vs]

      current_compat = compat[about.__version__]
      model_links = get_model_links(current_compat)
      model_pkgs = get_model_pkgs(current_compat, all_models)
      ...
  \<close>
\<close>

definition validate :: "env \<Rightarrow> run" where
  "validate e =
     (let r = env_response e in
      then_run ([HttpGet (env_url e)], None)
     (then_run (if status_code r \<noteq> 200
                then prints [''Couldn't fetch compatibility table.'']
                       (Some (''Server error ('' @ str_of_int (status_code r) @ '')'')) (Some 1)
                else skip)
       (case subscript (json r) ''spacy'' of
          Inl err \<Rightarrow> raise err
        | Inr compat0 \<Rightarrow>
            (let all_models = all_models_of compat0;
                 compat' = reformat_matrix compat0
             in case subscript compat' (env_version e) of
                  Inl err \<Rightarrow> raise err
                | Inr current_compat \<Rightarrow>
                    (case get_model_links current_compat (env_data_path e) of
                       Inl err \<Rightarrow> raise err
                     | Inr model_links \<Rightarrow>
                         (let model_pkgs =
                                get_model_pkgs current_compat all_models (env_working_set e)
                          in report e current_compat model_links model_pkgs))))))"

section \<open>Example surroundings\<close>

text \<open>
  The matrix of the spec's scenarios, \<open>{"2.0.0": {"en_core_web_sm": ["2.0.0"]}}\<close>, and
  the surroundings of a run: the host version, the status code of the response, the
  installed packages and the data directory.
\<close>

definition example_matrix :: "(string, (string, string list) dict) dict" where
  "example_matrix = [(''2.0.0'', [(''en_core_web_sm'', [''2.0.0''])])]"

definition example_env ::
  "string \<Rightarrow> int \<Rightarrow> (string, string) dict \<Rightarrow> data_dir option \<Rightarrow> env" where
  "example_env host_version status pkgs dir =
     \<lparr>env_url = ''https://raw.githubusercontent.com/explosion/spacy-models/master/compatibility.json'',
      env_version = host_version,
      env_response = \<lparr>status_code = status, json = [(''spacy'', example_matrix)]\<rparr>,
      env_root = ''/usr/lib/python3/site-packages/spacy'',
      env_data_path = dir,
      env_working_set = pkgs,
      env_tick = ''+''\<rparr>"

text \<open>
  The current sub-map of the example matrix for the host version 2.0.0, a registry
  with one model at a version the sub-map does not list, one model that only another
  host version knows and one package that is no model, and a data directory with a
  linked model, a directory without \<open>meta.json\<close>, a cache directory and a plain file.
\<close>

definition example_current :: "(string, string list) dict" where
  "example_current = [(''en_core_web_sm'', [''2.0.0''])]"

definition example_working_set :: "(string, string) dict" where
  "example_working_set =
     [(''en-core-web-sm'', ''1.0.0''), (''requests'', ''2.18.4''), (''de-core-news-sm'', ''2.0.0'')]"



section \<open>Properties of the matrix lookup\<close>

lemma has_key_iff: "has_key d k \<longleftrightarrow> k \<in> fst ` set d"
  by (simp add: has_key_def map_of_eq_None_iff)

text \<open>
  Claim C1. \<open>is_compat(compat, name, version)\<close> is true exactly when \<open>name\<close> is a key of
  the sub-map and \<open>version\<close> is an element of the list stored under \<open>name\<close>. So it is
  true for every (model, version) pair listed in the sub-map, and false for a version
  that the list of the model does not hold.
\<close>

theorem is_compat_iff_listed:
  "(is_compat compat' name version \<longleftrightarrow>
      name \<in> fst ` set compat' \<and> (\<exists>vs. map_of compat' name = Some vs \<and> version \<in> set vs))
   \<and> (distinct (map fst compat') \<longrightarrow> (name, vs) \<in> set compat' \<longrightarrow> version \<in> set vs
        \<longrightarrow> is_compat compat' name version)
   \<and> (map_of compat' name = Some vs \<longrightarrow> version \<notin> set vs
        \<longrightarrow> \<not> is_compat compat' name version)"
proof (intro conjI impI)
  show "is_compat compat' name version \<longleftrightarrow>
          name \<in> fst ` set compat' \<and> (\<exists>vs. map_of compat' name = Some vs \<and> version \<in> set vs)"
    by (auto simp add: is_compat_def has_key_iff subscript_def map_of_eq_None_iff
        split: option.splits)
next
  assume "distinct (map fst compat')" "(name, vs) \<in> set compat'" "version \<in> set vs"
  then have "map_of compat' name = Some vs"
    by simp
  with \<open>version \<in> set vs\<close> show "is_compat compat' name version"
    by (simp add: is_compat_def has_key_def subscript_def)
next
  assume "map_of compat' name = Some vs" "version \<notin> set vs"
  then show "\<not> is_compat compat' name version"
    by (simp add: is_compat_def has_key_def subscript_def)
qed

theorem is_compat_iff_listed_witness:
  "distinct (map fst [(''en_core_web_sm'', [''2.0.0''])])
   \<and> (''en_core_web_sm'', [''2.0.0'']) \<in> set [(''en_core_web_sm'', [''2.0.0''])]
   \<and> ''2.0.0'' \<in> set [''2.0.0'']
   \<and> is_compat [(''en_core_web_sm'', [''2.0.0''])] ''en_core_web_sm'' ''2.0.0''
   \<and> map_of [(''en_core_web_sm'', [''2.0.0''])] ''en_core_web_sm'' = Some [''2.0.0'']
   \<and> ''1.0.0'' \<notin> set [''2.0.0'']
   \<and> \<not> is_compat [(''en_core_web_sm'', [''2.0.0''])] ''en_core_web_sm'' ''1.0.0''"
  using is_compat_iff_listed [of "[(''en_core_web_sm'', [''2.0.0''])]" "''en_core_web_sm''"
      "''2.0.0''" "[''2.0.0'']"]
    is_compat_iff_listed [of "[(''en_core_web_sm'', [''2.0.0''])]" "''en_core_web_sm''"
      "''1.0.0''" "[''2.0.0'']"]
  by simp

section \<open>Properties of the version normalizer\<close>

text \<open>
  How \<open>str_replace\<close> unfolds for a pattern that is not empty, and what \<open>occurs\<close> means.
\<close>

lemma str_replace_Nil: "old \<noteq> [] \<Longrightarrow> str_replace old new [] = []"
  by (simp add: str_replace.simps [of old new "[]"])

lemma str_replace_prefix:
  "old \<noteq> [] \<Longrightarrow> str_replace old new (old @ s) = new @ str_replace old new s"
  by (simp add: str_replace.simps [of old new "old @ s"])

lemma str_replace_Cons:
  "old \<noteq> [] \<Longrightarrow> \<not> prefix old (c # cs) \<Longrightarrow>
   str_replace old new (c # cs) = c # str_replace old new cs"
  by (simp add: str_replace.simps [of old new "c # cs"])

lemma occurs_iff: "occurs old s \<longleftrightarrow> (\<exists>xs ys. s = xs @ old @ ys)"
proof (induction s)
  case Nil
  show ?case by auto
next
  case (Cons c cs)
  show ?case
  proof
    assume "occurs old (c # cs)"
    then consider "prefix old (c # cs)" | "occurs old cs" by auto
    then show "\<exists>xs ys. c # cs = xs @ old @ ys"
    proof cases
      case 1
      then obtain ys where "c # cs = old @ ys" by (auto simp add: prefix_def)
      then have "c # cs = [] @ old @ ys" by simp
      then show ?thesis by blast
    next
      case 2
      then obtain xs ys where "cs = xs @ old @ ys" using Cons.IH by auto
      then have "c # cs = (c # xs) @ old @ ys" by simp
      then show ?thesis by blast
    qed
  next
    assume "\<exists>xs ys. c # cs = xs @ old @ ys"
    then obtain xs ys where e: "c # cs = xs @ old @ ys" by auto
    show "occurs old (c # cs)"
    proof (cases xs)
      case Nil
      with e have "prefix old (c # cs)" by (simp add: prefix_def)
      then show ?thesis by simp
    next
      case (Cons x xs')
      with e have "cs = xs' @ old @ ys" by simp
      then have "occurs old cs" using Cons.IH by auto
      then show ?thesis by simp
    qed
  qed
qed

lemma str_replace_absent:
  "old \<noteq> [] \<Longrightarrow> \<not> occurs old s \<Longrightarrow> str_replace old new s = s"
  by (induction s) (simp_all add: str_replace_Nil str_replace_Cons)

lemma no_straddle:
  assumes "h \<notin> set t" and "prefix (h # t) ((c # w) @ (h # t) @ rest)"
  shows "prefix (h # t) (c # w)"
proof -
  from assms(2) consider "prefix (h # t) (c # w)"
    | us where "h # t = (c # w) @ us" "prefix us ((h # t) @ rest)"
    unfolding prefix_append by blast
  then show ?thesis
  proof cases
    case 1
    then show ?thesis .
  next
    case 2
    show ?thesis
    proof (cases us)
      case Nil
      with 2 show ?thesis by simp
    next
      case (Cons u us')
      with 2 have "u = h" by simp
      with 2 Cons have "h \<in> set t" by auto
      with assms(1) show ?thesis by simp
    qed
  qed
qed

lemma str_replace_piece:
  assumes "h \<notin> set t" and "\<not> occurs (h # t) w"
  shows "str_replace (h # t) new (w @ (h # t) @ rest) = w @ new @ str_replace (h # t) new rest"
  using assms(2)
proof (induction w)
  case Nil
  show ?case using str_replace_prefix [of "h # t" new rest] by simp
next
  case (Cons c w)
  then have np: "\<not> prefix (h # t) (c # w)" and nw: "\<not> occurs (h # t) w"
    by auto
  have "\<not> prefix (h # t) ((c # w) @ (h # t) @ rest)"
    using no_straddle [OF assms(1)] np by blast
  then have "str_replace (h # t) new ((c # w) @ (h # t) @ rest)
               = c # str_replace (h # t) new (w @ (h # t) @ rest)"
    using str_replace_Cons [of "h # t" c "w @ (h # t) @ rest" new] by simp
  then show ?case using Cons.IH [OF nw] by simp
qed

lemma str_replace_join:
  assumes "h \<notin> set t"
  shows "ws \<noteq> [] \<Longrightarrow> \<forall>w \<in> set ws. \<not> occurs (h # t) w \<Longrightarrow>
         str_replace (h # t) new (str_join (h # t) ws) = str_join new ws"
proof (induction ws rule: induct_list012)
  case 1
  then show ?case by simp
next
  case (2 x)
  then show ?case by (simp add: str_replace_absent)
next
  case (3 x y ys)
  then have "str_replace (h # t) new (str_join (h # t) (y # ys)) = str_join new (y # ys)"
    by simp
  moreover have "\<not> occurs (h # t) x" using 3 by simp
  ultimately show ?case
    using str_replace_piece [OF assms, of x new "str_join (h # t) (y # ys)"] by simp
qed

lemma pieces_exist:
  assumes "old \<noteq> []"
  shows "\<exists>ws. ws \<noteq> [] \<and> (\<forall>w \<in> set ws. \<not> occurs old w) \<and> s = str_join old ws"
proof (induction s rule: length_induct)
  case (1 s)
  show ?case
  proof (cases "prefix old s")
    case True
    then obtain s' where s: "s = old @ s'" by (auto simp add: prefix_def)
    with assms have "length s' < length s" by simp
    with 1 obtain ws where ws: "ws \<noteq> []" "\<forall>w \<in> set ws. \<not> occurs old w" "s' = str_join old ws"
      by blast
    from ws(1) obtain y ys where "ws = y # ys" by (cases ws) auto
    with ws s assms have "[] # ws \<noteq> [] \<and> (\<forall>w \<in> set ([] # ws). \<not> occurs old w)
        \<and> s = str_join old ([] # ws)"
      by simp
    then show ?thesis by blast
  next
    case False
    show ?thesis
    proof (cases s)
      case Nil
      with assms have "[[]] \<noteq> [] \<and> (\<forall>w \<in> set [[]]. \<not> occurs old w) \<and> s = str_join old [[]]"
        by simp
      then show ?thesis by blast
    next
      case (Cons c cs)
      then have "length cs < length s" by simp
      with 1 obtain ws where ws: "ws \<noteq> []" "\<forall>w \<in> set ws. \<not> occurs old w" "cs = str_join old ws"
        by blast
      from ws(1) obtain y ys where yys: "ws = y # ys" by (cases ws) auto
      have s: "s = str_join old ((c # y) # ys)"
        using Cons ws(3) yys by (cases ys) simp_all
      have "prefix (c # y) s"
        using s by (cases ys) simp_all
      then have "\<not> prefix old (c # y)"
        using False prefix_order.trans by blast
      moreover have "\<not> occurs old y" using ws(2) yys by simp
      ultimately have "\<not> occurs old (c # y)" by simp
      with ws(2) yys s have "(c # y) # ys \<noteq> [] \<and> (\<forall>w \<in> set ((c # y) # ys). \<not> occurs old w)
        \<and> s = str_join old ((c # y) # ys)"
        by simp
      then show ?thesis by blast
    qed
  qed
qed

text \<open>
  Claim C3. Every version string is a sequence of pieces joined by the marker
  \<open>-alpha\<close>, the pieces holding no marker themselves; the occurrences of the marker in
  the string are the joints. The normalizer returns the same pieces joined by \<open>a0\<close>
  when the string ends with the marker, and joined by \<open>a\<close> otherwise: every occurrence
  is replaced. A string in which the marker does not occur comes back unchanged. The
  normalizer is a total function of strings: it has a result for every input.
\<close>

theorem reformat_version_replaces_every_marker:
  "(\<exists>ws. ws \<noteq> [] \<and> (\<forall>w \<in> set ws. \<not> occurs ''-alpha'' w) \<and> version = str_join ''-alpha'' ws)
   \<and> (\<forall>ws. ws \<noteq> [] \<longrightarrow> (\<forall>w \<in> set ws. \<not> occurs ''-alpha'' w) \<longrightarrow>
          version = str_join ''-alpha'' ws \<longrightarrow>
          reformat_version version =
            (if suffix ''-alpha'' version then str_join ''a0'' ws else str_join ''a'' ws))
   \<and> (\<not> occurs ''-alpha'' version \<longrightarrow> reformat_version version = version)
   \<and> (occurs ''-alpha'' version \<longleftrightarrow> (\<exists>xs ys. version = xs @ ''-alpha'' @ ys))"
proof (intro conjI)
  show "\<exists>ws. ws \<noteq> [] \<and> (\<forall>w \<in> set ws. \<not> occurs ''-alpha'' w) \<and> version = str_join ''-alpha'' ws"
    by (rule pieces_exist) simp
  show "\<forall>ws. ws \<noteq> [] \<longrightarrow> (\<forall>w \<in> set ws. \<not> occurs ''-alpha'' w) \<longrightarrow>
          version = str_join ''-alpha'' ws \<longrightarrow>
          reformat_version version =
            (if suffix ''-alpha'' version then str_join ''a0'' ws else str_join ''a'' ws)"
  proof (intro allI impI)
    fix ws :: "string list"
    assume ws: "ws \<noteq> []" "\<forall>w \<in> set ws. \<not> occurs ''-alpha'' w"
      and v: "version = str_join ''-alpha'' ws"
    have h: "CHR ''-'' \<notin> set ''alpha''" by simp
    have "str_replace ''-alpha'' new version = str_join new ws" for new
      unfolding v using str_replace_join [OF h ws] by simp
    then show "reformat_version version =
            (if suffix ''-alpha'' version then str_join ''a0'' ws else str_join ''a'' ws)"
      by (simp add: reformat_version_def)
  qed
  show "\<not> occurs ''-alpha'' version \<longrightarrow> reformat_version version = version"
    by (simp add: reformat_version_def str_replace_absent)
  show "occurs ''-alpha'' version \<longleftrightarrow> (\<exists>xs ys. version = xs @ ''-alpha'' @ ys)"
    by (rule occurs_iff)
qed

theorem reformat_version_replaces_every_marker_witness:
  "\<not> occurs ''-alpha'' ''1.0.0'' \<and> \<not> occurs ''-alpha'' []
   \<and> ''1.0.0-alpha'' = str_join ''-alpha'' [''1.0.0'', []]
   \<and> suffix ''-alpha'' ''1.0.0-alpha''
   \<and> reformat_version ''1.0.0-alpha'' = ''1.0.0a0''
   \<and> \<not> occurs ''-alpha'' ''2.0.0'' \<and> \<not> occurs ''-alpha'' ''4''
   \<and> ''2.0.0-alpha4'' = str_join ''-alpha'' [''2.0.0'', ''4'']
   \<and> \<not> suffix ''-alpha'' ''2.0.0-alpha4''
   \<and> reformat_version ''2.0.0-alpha4'' = ''2.0.0a4''
   \<and> reformat_version ''2.0.0'' = ''2.0.0''"
  using reformat_version_replaces_every_marker [of "''1.0.0-alpha''", THEN conjunct2,
      THEN conjunct1, THEN spec [of _ "[''1.0.0'', []]"]]
    reformat_version_replaces_every_marker [of "''2.0.0-alpha4''", THEN conjunct2,
      THEN conjunct1, THEN spec [of _ "[''2.0.0'', ''4'']"]]
    reformat_version_replaces_every_marker [of "''2.0.0''", THEN conjunct2, THEN conjunct2,
      THEN conjunct1]
  by (simp add: suffix_to_prefix)

lemma length_str_replace_le:
  assumes "old \<noteq> []" "length new \<le> length old"
  shows "length (str_replace old new s) \<le> length s"
proof (induction s rule: length_induct)
  case (1 s)
  show ?case
  proof (cases "prefix old s")
    case True
    then obtain s' where s: "s = old @ s'" by (auto simp add: prefix_def)
    with assms have "length s' < length s" by simp
    with 1 have "length (str_replace old new s') \<le> length s'" by blast
    with assms show ?thesis by (simp add: s str_replace_prefix)
  next
    case False
    show ?thesis
    proof (cases s)
      case Nil
      with assms show ?thesis by (simp add: str_replace_Nil)
    next
      case (Cons c cs)
      with 1 have "length (str_replace old new cs) \<le> length cs" by simp
      with False Cons assms show ?thesis by (simp add: str_replace_Cons)
    qed
  qed
qed

lemma length_str_replace_less:
  assumes "old \<noteq> []" "length new < length old"
  shows "occurs old s \<Longrightarrow> length (str_replace old new s) < length s"
proof (induction s)
  case Nil
  with assms show ?case by simp
next
  case (Cons c cs)
  show ?case
  proof (cases "prefix old (c # cs)")
    case True
    then obtain s' where s: "c # cs = old @ s'" by (auto simp add: prefix_def)
    have "length (str_replace old new s') \<le> length s'"
      using assms by (simp add: length_str_replace_le)
    with assms have "length (str_replace old new (old @ s')) < length (old @ s')"
      by (simp add: str_replace_prefix)
    then show ?thesis by (simp only: s)
  next
    case False
    with Cons.prems have "occurs old cs" by simp
    with Cons.IH have "length (str_replace old new cs) < length cs" by simp
    with False assms show ?thesis by (simp add: str_replace_Cons)
  qed
qed

lemma reformat_version_fixed_iff:
  "reformat_version t = t \<longleftrightarrow> \<not> occurs ''-alpha'' t"
proof
  assume fixed: "reformat_version t = t"
  show "\<not> occurs ''-alpha'' t"
  proof
    assume "occurs ''-alpha'' t"
    then have "length (str_replace ''-alpha'' ''a0'' t) < length t"
      and "length (str_replace ''-alpha'' ''a'' t) < length t"
      by (simp_all add: length_str_replace_less)
    then have "length (reformat_version t) < length t"
      by (simp add: reformat_version_def)
    with fixed show False by simp
  qed
next
  assume "\<not> occurs ''-alpha'' t"
  then show "reformat_version t = t"
    by (simp add: reformat_version_def str_replace_absent)
qed

lemma occurs_set: "occurs old s \<Longrightarrow> set old \<subseteq> set s"
  by (auto simp add: occurs_iff)

lemma set_str_join: "set (str_join sep ws) \<subseteq> set sep \<union> \<Union> (set ` set ws)"
  by (induction ws rule: induct_list012) auto

text \<open>
  Claim C4, as stated, fails: replacing a marker can put a new marker together from
  the text around it. \<open>-alph-alpha\<close> ends with the marker and becomes \<open>-alpha0\<close>, which
  the normalizer turns into \<open>a0\<close>.
\<close>

theorem reformat_version_not_idempotent:
  "reformat_version ''-alph-alpha'' = ''-alpha0''
   \<and> reformat_version (reformat_version ''-alph-alpha'') = ''a0''
   \<and> reformat_version (reformat_version ''-alph-alpha'') \<noteq> reformat_version ''-alph-alpha''"
  by (simp add: reformat_version_def str_replace.simps suffix_to_prefix)

text \<open>
  Claim C4, amended. Normalizing twice gives the same as normalizing once exactly
  when the normalized string holds no marker \<open>-alpha\<close>. That is so for every string
  whose hyphens all begin a marker, that is, whose pieces between the markers hold no
  hyphen, as in \<open>1.0.0-alpha\<close>.
\<close>

theorem reformat_version_idempotent_iff:
  "(reformat_version (reformat_version s) = reformat_version s
      \<longleftrightarrow> \<not> occurs ''-alpha'' (reformat_version s))
   \<and> (\<forall>ws. ws \<noteq> [] \<longrightarrow> (\<forall>w \<in> set ws. CHR ''-'' \<notin> set w) \<longrightarrow> s = str_join ''-alpha'' ws \<longrightarrow>
          reformat_version (reformat_version s) = reformat_version s)"
proof (intro conjI allI impI)
  show "reformat_version (reformat_version s) = reformat_version s
      \<longleftrightarrow> \<not> occurs ''-alpha'' (reformat_version s)"
    by (rule reformat_version_fixed_iff)
next
  fix ws :: "string list"
  assume ws: "ws \<noteq> []" "\<forall>w \<in> set ws. CHR ''-'' \<notin> set w" and s: "s = str_join ''-alpha'' ws"
  have free: "\<forall>w \<in> set ws. \<not> occurs ''-alpha'' w"
    using ws(2) occurs_set [of "''-alpha''"] by auto
  have h: "CHR ''-'' \<notin> set ''alpha''" by simp
  have r: "str_replace ''-alpha'' new s = str_join new ws" for new
    unfolding s using str_replace_join [OF h ws(1) free] by simp
  have "CHR ''-'' \<notin> set (str_join new ws)" if "CHR ''-'' \<notin> set new" for new
    using set_str_join [of new ws] ws(2) that by auto
  then have "CHR ''-'' \<notin> set (reformat_version s)"
    by (simp add: reformat_version_def r)
  then have "\<not> occurs ''-alpha'' (reformat_version s)"
    using occurs_set [of "''-alpha''" "reformat_version s"] by auto
  then show "reformat_version (reformat_version s) = reformat_version s"
    by (simp add: reformat_version_fixed_iff)
qed

theorem reformat_version_idempotent_iff_witness:
  "CHR ''-'' \<notin> set ''1.0.0'' \<and> CHR ''-'' \<notin> set []
   \<and> ''1.0.0-alpha'' = str_join ''-alpha'' [''1.0.0'', []]
   \<and> reformat_version (reformat_version ''1.0.0-alpha'') = reformat_version ''1.0.0-alpha''
   \<and> \<not> occurs ''-alpha'' (reformat_version ''1.0.0-alpha'')"
  using reformat_version_idempotent_iff [of "''1.0.0-alpha''", THEN conjunct2,
      THEN spec [of _ "[''1.0.0'', []]"]]
    reformat_version_idempotent_iff [of "''1.0.0-alpha''", THEN conjunct1]
  by simp

section \<open>Rendering a row\<close>

text \<open>
  Claim C10. Rendering the row of an incompatible model reads the first element of
  the version list that the current sub-map stores under the model's name. It gives
  the hint \<open>n/a\<close> when the name is not a key, the first listed version when the list
  is not empty, and fails with IndexError when the name is a key with the empty list.
\<close>

theorem get_model_row_incompatible:
  assumes "\<not> d_compat data"
  shows "(map_of compat' (d_name data) = None \<longrightarrow>
            get_model_row tick compat' name data type =
              Inr (get_row type name (d_name data) (tpl_red (d_version data)) ''--> n/a''))
       \<and> (\<forall>v vs. map_of compat' (d_name data) = Some (v # vs) \<longrightarrow>
            get_model_row tick compat' name data type =
              Inr (get_row type name (d_name data) (tpl_red (d_version data)) (''--> '' @ v)))
       \<and> (map_of compat' (d_name data) = Some [] \<longrightarrow>
            get_model_row tick compat' name data type = Inl IndexError)"
  using assms by (simp add: get_model_row_def dict_get_def)

theorem get_model_row_incompatible_witness:
  "\<not> d_compat \<lparr>d_name = ''en'', d_version = ''1.0'', d_compat = False\<rparr>
   \<and> map_of [(''en'', [])] ''en'' = Some []
   \<and> get_model_row ''+'' [(''en'', [])] ''en-pkg''
        \<lparr>d_name = ''en'', d_version = ''1.0'', d_compat = False\<rparr> ''package'' = Inl IndexError
   \<and> map_of [(''en'', [''2.0'', ''2.1''])] ''en'' = Some [''2.0'', ''2.1'']
   \<and> get_model_row ''+'' [(''en'', [''2.0'', ''2.1''])] ''en-pkg''
        \<lparr>d_name = ''en'', d_version = ''1.0'', d_compat = False\<rparr> ''package''
      = Inr (get_row ''package'' ''en-pkg'' ''en'' (tpl_red ''1.0'') ''--> 2.0'')
   \<and> map_of [(''de'', [''2.0''])] ''en'' = None
   \<and> get_model_row ''+'' [(''de'', [''2.0''])] ''en-pkg''
        \<lparr>d_name = ''en'', d_version = ''1.0'', d_compat = False\<rparr> ''package''
      = Inr (get_row ''package'' ''en-pkg'' ''en'' (tpl_red ''1.0'') ''--> n/a'')"
  using get_model_row_incompatible [of "\<lparr>d_name = ''en'', d_version = ''1.0'', d_compat = False\<rparr>"
      "[(''en'', [])]" "''+''" "''en-pkg''" "''package''"]
    get_model_row_incompatible [of "\<lparr>d_name = ''en'', d_version = ''1.0'', d_compat = False\<rparr>"
      "[(''en'', [''2.0'', ''2.1''])]" "''+''" "''en-pkg''" "''package''"]
    get_model_row_incompatible [of "\<lparr>d_name = ''en'', d_version = ''1.0'', d_compat = False\<rparr>"
      "[(''de'', [''2.0''])]" "''+''" "''en-pkg''" "''package''"]
  by simp

section \<open>Properties of the link scanner\<close>

lemma set_update_subset: "set (AList.update k v al) \<subseteq> insert (k, v) (set al)"
  by (induction al) auto








section \<open>Properties of the package scanner\<close>

lemma str_replace_hyphen_underscored: "str_replace ''-'' ''_'' s = underscored s"
proof (induction s)
  case Nil
  show ?case by (simp add: str_replace.simps [of _ _ "[]"] underscored_def)
next
  case (Cons c cs)
  show ?case
  proof (cases "c = CHR ''-''")
    case True
    with Cons show ?thesis
      by (simp add: str_replace.simps [of _ _ "CHR ''-'' # cs"] underscored_def)
  next
    case False
    with Cons show ?thesis
      by (simp add: str_replace.simps [of _ _ "c # cs"] underscored_def)
  qed
qed

lemma update_fresh: "k \<notin> fst ` set al \<Longrightarrow> AList.update k v al = al @ [(k, v)]"
  by (induction al) auto

lemma pkgs_loop_keys:
  "fst ` set (pkgs_loop cc all ws acc) = fst ` set acc \<union> {k \<in> fst ` set ws. underscored k \<in> all}"
proof (induction ws arbitrary: acc)
  case Nil
  show ?case by simp
next
  case (Cons p ws)
  obtain k v where p: "p = (k, v)" by (cases p)
  show ?case
    unfolding p by (auto simp add: Cons.IH str_replace_hyphen_underscored dom_update Let_def)
qed

lemma pkgs_loop_distinct:
  "distinct (map fst acc) \<Longrightarrow> distinct (map fst (pkgs_loop cc all ws acc))"
proof (induction ws arbitrary: acc)
  case Nil
  then show ?case by simp
next
  case (Cons p ws)
  obtain k v where p: "p = (k, v)" by (cases p)
  show ?case
    unfolding p using Cons.prems
    by (auto simp add: Let_def intro!: Cons.IH distinct_update)
qed

lemma pkgs_loop_entries:
  "(k, d) \<in> set (pkgs_loop cc all ws acc) \<Longrightarrow>
     (k, d) \<in> set acc \<or> (\<exists>v. (k, v) \<in> set ws \<and> underscored k \<in> all \<and> d = pkg_entry cc k v)"
proof (induction ws arbitrary: acc)
  case Nil
  then show ?case by simp
next
  case (Cons p ws)
  obtain k' v' where p: "p = (k', v')" by (cases p)
  show ?case
  proof (cases "underscored k' \<in> all")
    case True
    with Cons.prems have "(k, d) \<in> set (pkgs_loop cc all ws (AList.update k' (pkg_entry cc k' v') acc))"
      by (simp add: p str_replace_hyphen_underscored pkg_entry_def Let_def)
    then consider "(k, d) \<in> set (AList.update k' (pkg_entry cc k' v') acc)"
      | "\<exists>v. (k, v) \<in> set ws \<and> underscored k \<in> all \<and> d = pkg_entry cc k v"
      using Cons.IH by blast
    then show ?thesis
    proof cases
      case 1
      then have "(k, d) = (k', pkg_entry cc k' v') \<or> (k, d) \<in> set acc"
        using set_update_subset [of k' "pkg_entry cc k' v'" acc] by auto
      then show ?thesis using True p by auto
    next
      case 2
      then show ?thesis by auto
    qed
  next
    case False
    with Cons.prems have "(k, d) \<in> set (pkgs_loop cc all ws acc)"
      by (simp add: p str_replace_hyphen_underscored Let_def)
    then show ?thesis using Cons.IH by fastforce
  qed
qed

lemma pkgs_loop_distinct_eq:
  "distinct (map fst ws) \<Longrightarrow> fst ` set acc \<inter> fst ` set ws = {} \<Longrightarrow>
   pkgs_loop cc all ws acc =
     acc @ map (\<lambda>(k, v). (k, pkg_entry cc k v)) (filter (\<lambda>(k, v). underscored k \<in> all) ws)"
proof (induction ws arbitrary: acc)
  case Nil
  show ?case by simp
next
  case (Cons p ws)
  obtain k v where p: "p = (k, v)" by (cases p)
  have fresh: "k \<notin> fst ` set acc" and d: "distinct (map fst ws)" and kws: "k \<notin> fst ` set ws"
    and disj: "fst ` set acc \<inter> fst ` set ws = {}"
    using Cons.prems by (auto simp add: p)
  show ?case
  proof (cases "underscored k \<in> all")
    case True
    have "fst ` set (acc @ [(k, pkg_entry cc k v)]) \<inter> fst ` set ws = {}"
      using disj kws by auto
    from Cons.IH [OF d this] True show ?thesis
      by (simp add: p str_replace_hyphen_underscored update_fresh [OF fresh] pkg_entry_def Let_def)
  next
    case False
    from Cons.IH [OF d disj] False show ?thesis
      by (simp add: p str_replace_hyphen_underscored Let_def)
  qed
qed

lemma in_all_models_of_iff:
  "m \<in> all_models_of compat0 \<longleftrightarrow> (\<exists>v models. (v, models) \<in> set compat0 \<and> m \<in> fst ` set models)"
  by (force simp add: all_models_of_def)

text \<open>
  Claim C8. The keys of the package scanner's output are exactly the installed
  packages whose name, with every hyphen replaced by an underscore, is one of the known
  model names, each key once. Every item records the underscored name, the installed
  version of the package and the result of \<open>is_compat\<close> for them in the current
  sub-map; for a registry (a dict, so with distinct keys) the output is the list of
  these items in the registry's order. The known model names that \<open>validate\<close> passes
  are the keys of the sub-maps of every host version.
\<close>

theorem get_model_pkgs_exactly_known_models:
  "fst ` set (get_model_pkgs cc all ws) = {k \<in> fst ` set ws. underscored k \<in> all}
   \<and> distinct (map fst (get_model_pkgs cc all ws))
   \<and> (\<forall>k d. (k, d) \<in> set (get_model_pkgs cc all ws) \<longrightarrow>
         d_name d = underscored k \<and> (k, d_version d) \<in> set ws
         \<and> d_compat d = is_compat cc (underscored k) (d_version d))
   \<and> (distinct (map fst ws) \<longrightarrow>
         get_model_pkgs cc all ws =
           map (\<lambda>(k, v). (k, \<lparr>d_name = underscored k, d_version = v,
                                d_compat = is_compat cc (underscored k) v\<rparr>))
             (filter (\<lambda>(k, v). underscored k \<in> all) ws))
   \<and> str_replace ''-'' ''_'' pkg_name = underscored pkg_name
   \<and> (m \<in> all_models_of compat0 \<longleftrightarrow>
         (\<exists>v models. (v, models) \<in> set compat0 \<and> m \<in> fst ` set models))"
proof (intro conjI)
  show "fst ` set (get_model_pkgs cc all ws) = {k \<in> fst ` set ws. underscored k \<in> all}"
    by (simp add: get_model_pkgs_def pkgs_loop_keys)
  show "distinct (map fst (get_model_pkgs cc all ws))"
    by (simp add: get_model_pkgs_def pkgs_loop_distinct)
  show "str_replace ''-'' ''_'' pkg_name = underscored pkg_name"
    by (rule str_replace_hyphen_underscored)
  show "m \<in> all_models_of compat0 \<longleftrightarrow>
         (\<exists>v models. (v, models) \<in> set compat0 \<and> m \<in> fst ` set models)"
    by (rule in_all_models_of_iff)
  show "\<forall>k d. (k, d) \<in> set (get_model_pkgs cc all ws) \<longrightarrow>
         d_name d = underscored k \<and> (k, d_version d) \<in> set ws
         \<and> d_compat d = is_compat cc (underscored k) (d_version d)"
  proof (intro allI impI)
    fix k d
    assume "(k, d) \<in> set (get_model_pkgs cc all ws)"
    then obtain v where "(k, v) \<in> set ws" "d = pkg_entry cc k v"
      using pkgs_loop_entries [of k d cc all ws "[]"] by (auto simp add: get_model_pkgs_def)
    then show "d_name d = underscored k \<and> (k, d_version d) \<in> set ws
           \<and> d_compat d = is_compat cc (underscored k) (d_version d)"
      by (simp add: pkg_entry_def)
  qed
  show "distinct (map fst ws) \<longrightarrow>
         get_model_pkgs cc all ws =
           map (\<lambda>(k, v). (k, \<lparr>d_name = underscored k, d_version = v,
                                d_compat = is_compat cc (underscored k) v\<rparr>))
             (filter (\<lambda>(k, v). underscored k \<in> all) ws)"
    using pkgs_loop_distinct_eq [of ws "[]" cc all]
    by (simp add: get_model_pkgs_def pkg_entry_def)
qed

theorem get_model_pkgs_exactly_known_models_witness:
  "distinct (map fst example_working_set)
   \<and> get_model_pkgs example_current {''en_core_web_sm'', ''de_core_news_sm''} example_working_set
       = [(''en-core-web-sm'',
           \<lparr>d_name = ''en_core_web_sm'', d_version = ''1.0.0'', d_compat = False\<rparr>),
          (''de-core-news-sm'',
           \<lparr>d_name = ''de_core_news_sm'', d_version = ''2.0.0'', d_compat = False\<rparr>)]"
  using get_model_pkgs_exactly_known_models [of example_current
      "{''en_core_web_sm'', ''de_core_news_sm''}" example_working_set,
      THEN conjunct2, THEN conjunct2, THEN conjunct2, THEN conjunct1]
  by (simp add: example_working_set_def example_current_def underscored_def is_compat_def
      has_key_def subscript_def)

section \<open>Properties of the classification\<close>

lemma in_incompat_models_iff:
  "m \<in> set (incompat_models model_pkgs model_links) \<longleftrightarrow>
     (\<exists>k d. ((k, d) \<in> set model_pkgs \<or> (k, d) \<in> set model_links)
            \<and> \<not> d_compat d \<and> d_name d = m)"
  by (auto simp add: incompat_models_def)

lemma distinct_incompat_models: "distinct (incompat_models model_pkgs model_links)"
  by (simp add: incompat_models_def)

text \<open>
  Claim C2. The incompatible model names are the names of the incompatible packages
  and of the incompatible links. Each of them is in exactly one of the two lists, and
  once: in \<open>na_models\<close> when it is not a key of the current sub-map, in \<open>update_models\<close>
  when it is. So a model installed at a version the sub-map does not list, but known
  to the sub-map, is in \<open>update_models\<close> and not in \<open>na_models\<close>, and a model the sub-map
  does not know is in \<open>na_models\<close>.
\<close>

theorem incompatible_models_classified:
  "(m \<in> set (incompat_models model_pkgs model_links) \<longleftrightarrow>
      (\<exists>k d. ((k, d) \<in> set model_pkgs \<or> (k, d) \<in> set model_links)
             \<and> \<not> d_compat d \<and> d_name d = m))
   \<and> (m \<in> set (incompat_models model_pkgs model_links) \<longrightarrow> m \<notin> fst ` set current_compat \<longrightarrow>
         m \<in> set (na_models (incompat_models model_pkgs model_links) current_compat)
       \<and> m \<notin> set (update_models (incompat_models model_pkgs model_links) current_compat))
   \<and> (m \<in> set (incompat_models model_pkgs model_links) \<longrightarrow> m \<in> fst ` set current_compat \<longrightarrow>
         m \<in> set (update_models (incompat_models model_pkgs model_links) current_compat)
       \<and> m \<notin> set (na_models (incompat_models model_pkgs model_links) current_compat))
   \<and> set (na_models (incompat_models model_pkgs model_links) current_compat)
       \<union> set (update_models (incompat_models model_pkgs model_links) current_compat)
       = set (incompat_models model_pkgs model_links)
   \<and> distinct (na_models (incompat_models model_pkgs model_links) current_compat)
   \<and> distinct (update_models (incompat_models model_pkgs model_links) current_compat)"
proof (intro conjI)
  show "m \<in> set (incompat_models model_pkgs model_links) \<longleftrightarrow>
      (\<exists>k d. ((k, d) \<in> set model_pkgs \<or> (k, d) \<in> set model_links)
             \<and> \<not> d_compat d \<and> d_name d = m)"
    by (rule in_incompat_models_iff)
  show "m \<in> set (incompat_models model_pkgs model_links) \<longrightarrow> m \<notin> fst ` set current_compat \<longrightarrow>
         m \<in> set (na_models (incompat_models model_pkgs model_links) current_compat)
       \<and> m \<notin> set (update_models (incompat_models model_pkgs model_links) current_compat)"
    by (simp add: na_models_def update_models_def has_key_iff)
  show "m \<in> set (incompat_models model_pkgs model_links) \<longrightarrow> m \<in> fst ` set current_compat \<longrightarrow>
         m \<in> set (update_models (incompat_models model_pkgs model_links) current_compat)
       \<and> m \<notin> set (na_models (incompat_models model_pkgs model_links) current_compat)"
    by (simp add: na_models_def update_models_def has_key_iff)
  show "set (na_models (incompat_models model_pkgs model_links) current_compat)
       \<union> set (update_models (incompat_models model_pkgs model_links) current_compat)
       = set (incompat_models model_pkgs model_links)"
    by (auto simp add: na_models_def update_models_def)
  show "distinct (na_models (incompat_models model_pkgs model_links) current_compat)"
    by (simp add: na_models_def distinct_incompat_models)
  show "distinct (update_models (incompat_models model_pkgs model_links) current_compat)"
    by (simp add: update_models_def distinct_incompat_models)
qed

theorem incompatible_models_classified_witness:
  "''en_core_web_sm'' \<in> set (incompat_models
       (get_model_pkgs example_current {''en_core_web_sm'', ''de_core_news_sm''}
          example_working_set) [])
   \<and> ''en_core_web_sm'' \<in> fst ` set example_current
   \<and> ''en_core_web_sm'' \<in> set (update_models (incompat_models
       (get_model_pkgs example_current {''en_core_web_sm'', ''de_core_news_sm''}
          example_working_set) []) example_current)
   \<and> ''en_core_web_sm'' \<notin> set (na_models (incompat_models
       (get_model_pkgs example_current {''en_core_web_sm'', ''de_core_news_sm''}
          example_working_set) []) example_current)
   \<and> ''de_core_news_sm'' \<in> set (incompat_models
       (get_model_pkgs example_current {''en_core_web_sm'', ''de_core_news_sm''}
          example_working_set) [])
   \<and> ''de_core_news_sm'' \<notin> fst ` set example_current
   \<and> ''de_core_news_sm'' \<in> set (na_models (incompat_models
       (get_model_pkgs example_current {''en_core_web_sm'', ''de_core_news_sm''}
          example_working_set) []) example_current)
   \<and> ''de_core_news_sm'' \<notin> set (update_models (incompat_models
       (get_model_pkgs example_current {''en_core_web_sm'', ''de_core_news_sm''}
          example_working_set) []) example_current)"
proof -
  have p: "get_model_pkgs example_current {''en_core_web_sm'', ''de_core_news_sm''}
             example_working_set
       = [(''en-core-web-sm'',
           \<lparr>d_name = ''en_core_web_sm'', d_version = ''1.0.0'', d_compat = False\<rparr>),
          (''de-core-news-sm'',
           \<lparr>d_name = ''de_core_news_sm'', d_version = ''2.0.0'', d_compat = False\<rparr>)]"
    by (simp add: get_model_pkgs_def str_replace_hyphen_underscored underscored_def
        example_working_set_def example_current_def is_compat_def has_key_def subscript_def
        Let_def)
  have i: "''en_core_web_sm'' \<in> set (incompat_models
       (get_model_pkgs example_current {''en_core_web_sm'', ''de_core_news_sm''}
          example_working_set) [])"
    "''de_core_news_sm'' \<in> set (incompat_models
       (get_model_pkgs example_current {''en_core_web_sm'', ''de_core_news_sm''}
          example_working_set) [])"
    by (simp_all add: p incompat_models_def)
  have k: "''en_core_web_sm'' \<in> fst ` set example_current"
    "''de_core_news_sm'' \<notin> fst ` set example_current"
    by (simp_all add: example_current_def)
  show ?thesis
    using i k
      incompatible_models_classified [of "''en_core_web_sm''"
        "get_model_pkgs example_current {''en_core_web_sm'', ''de_core_news_sm''}
           example_working_set" "[]" example_current]
      incompatible_models_classified [of "''de_core_news_sm''"
        "get_model_pkgs example_current {''en_core_web_sm'', ''de_core_news_sm''}
           example_working_set" "[]" example_current]
    by blast
qed

section \<open>How a run of the command ends\<close>

lemma then_run_simps:
  "then_run (out, None) b = (out @ fst b, snd b)"
  "then_run (out, Some s) b = (out, Some s)"
  by (simp_all add: then_run_def)

lemma str_of_int_404: "str_of_int 404 = ''404''"
  by (simp add: str_of_int_def str_of_nat.simps)

lemma keys_reformat_matrix: "map fst (reformat_matrix compat0) = map fst compat0"
  by (induction compat0) (auto simp add: reformat_matrix_def)

lemma map_of_reformat_matrix_None:
  "map_of (reformat_matrix compat0) v = None \<longleftrightarrow> map_of compat0 v = None"
  by (metis keys_reformat_matrix map_of_eq_None_iff set_map)

text \<open>
  Claim C6. When the status code of the response is not 200, the command makes its one
  request, prints the message \<open>Couldn't fetch compatibility table.\<close> under the title
  \<open>Server error (status)\<close> and ends with exit code 1: there is no second request, no
  matrix is built, nothing is scanned and no report is printed.
\<close>

theorem validate_fetch_error:
  assumes "status_code (env_response e) \<noteq> 200"
  shows "validate e =
           ([HttpGet (env_url e),
             Prints (Some (''Server error ('' @ str_of_int (status_code (env_response e)) @ '')''))
               [''Couldn't fetch compatibility table.'']],
            Some (SysExit 1))"
  using assms by (simp add: validate_def then_run_simps prints_def)

theorem validate_fetch_error_witness:
  "status_code (env_response (example_env ''2.0.0'' 404 [(''en-core-web-sm'', ''2.0.0'')] None)) \<noteq> 200
   \<and> validate (example_env ''2.0.0'' 404 [(''en-core-web-sm'', ''2.0.0'')] None) =
       ([HttpGet ''https://raw.githubusercontent.com/explosion/spacy-models/master/compatibility.json'',
         Prints (Some ''Server error (404)'') [''Couldn't fetch compatibility table.'']],
        Some (SysExit 1))"
  using validate_fetch_error [of "example_env ''2.0.0'' 404 [(''en-core-web-sm'', ''2.0.0'')] None"]
  by (simp add: example_env_def str_of_int_404)

text \<open>
  Claim C5, as stated, asks for a handled error when the host version is not a key of
  the matrix. The code has no such handling: \<open>compat[about.__version__]\<close> raises
  KeyError and nothing catches it. With the spec's matrix and the host version 3.0.0
  the run ends with the uncaught KeyError, not with an exit code, and prints nothing.
\<close>

theorem validate_missing_version_unhandled:
  "status_code (env_response (example_env ''3.0.0'' 200 [(''en-core-web-sm'', ''2.0.0'')] None)) = 200
   \<and> map_of (json (env_response (example_env ''3.0.0'' 200 [(''en-core-web-sm'', ''2.0.0'')] None)))
        ''spacy'' = Some example_matrix
   \<and> ''3.0.0'' \<notin> fst ` set example_matrix
   \<and> validate (example_env ''3.0.0'' 200 [(''en-core-web-sm'', ''2.0.0'')] None) =
       ([HttpGet ''https://raw.githubusercontent.com/explosion/spacy-models/master/compatibility.json''],
        Some (Raised KeyError))
   \<and> snd (validate (example_env ''3.0.0'' 200 [(''en-core-web-sm'', ''2.0.0'')] None))
       \<noteq> Some (SysExit 1)"
  by (simp add: validate_def example_env_def example_matrix_def then_run_simps skip_def
      raise_def subscript_def reformat_matrix_def)

text \<open>
  Claim C5, amended. When the response has status 200 and its body holds the matrix
  under \<open>spacy\<close>, and the host version is not a key of the matrix, the command ends
  with an uncaught KeyError right after the request: it prints no message, scans
  nothing and gives no exit code of its own.
\<close>

theorem validate_missing_version:
  assumes "status_code (env_response e) = 200"
    and "map_of (json (env_response e)) ''spacy'' = Some compat0"
    and "env_version e \<notin> fst ` set compat0"
  shows "validate e = ([HttpGet (env_url e)], Some (Raised KeyError))"
proof -
  have "map_of compat0 (env_version e) = None"
    using assms(3) by (simp add: map_of_eq_None_iff)
  then have "map_of (reformat_matrix compat0) (env_version e) = None"
    by (simp add: map_of_reformat_matrix_None)
  then show ?thesis
    using assms(1,2)
    by (simp add: validate_def then_run_simps skip_def raise_def subscript_def)
qed

theorem validate_missing_version_witness:
  "status_code (env_response (example_env ''1.9.0'' 200 [] None)) = 200
   \<and> map_of (json (env_response (example_env ''1.9.0'' 200 [] None))) ''spacy''
       = Some example_matrix
   \<and> env_version (example_env ''1.9.0'' 200 [] None) \<notin> fst ` set example_matrix
   \<and> validate (example_env ''1.9.0'' 200 [] None) =
       ([HttpGet ''https://raw.githubusercontent.com/explosion/spacy-models/master/compatibility.json''],
        Some (Raised KeyError))"
  using validate_missing_version [of "example_env ''1.9.0'' 200 [] None" example_matrix]
  by (simp add: example_env_def example_matrix_def)

text \<open>
  Claim C9. When the fetch succeeded, the host version is a key of the matrix and both
  scanners return the empty dict, the command prints its headline and the message
  \<open>No models found in your current environment.\<close> and ends with exit code 0: no table
  row, no update command, no notice of unavailable models and no hint about links.
\<close>

theorem validate_no_models:
  assumes "status_code (env_response e) = 200"
    and "map_of (json (env_response e)) ''spacy'' = Some compat0"
    and "map_of (reformat_matrix compat0) (env_version e) = Some current_compat"
    and "get_model_links current_compat (env_data_path e) = Inr []"
    and "get_model_pkgs current_compat (all_models_of compat0) (env_working_set e) = []"
  shows "validate e =
           ([HttpGet (env_url e),
             Prints (Some (''Installed models (spaCy v'' @ env_version e @ '')'')) [env_root e],
             Prints None [''No models found in your current environment.'']],
            Some (SysExit 0))"
  using assms
  by (simp add: validate_def report_def then_run_simps skip_def prints_def subscript_def)

theorem validate_no_models_witness:
  "status_code (env_response (example_env ''2.0.0'' 200 [(''requests'', ''2.18.4'')] None)) = 200
   \<and> map_of (json (env_response (example_env ''2.0.0'' 200 [(''requests'', ''2.18.4'')] None)))
        ''spacy'' = Some example_matrix
   \<and> map_of (reformat_matrix example_matrix)
        (env_version (example_env ''2.0.0'' 200 [(''requests'', ''2.18.4'')] None))
       = Some [(''en_core_web_sm'', [''2.0.0''])]
   \<and> get_model_links [(''en_core_web_sm'', [''2.0.0''])]
        (env_data_path (example_env ''2.0.0'' 200 [(''requests'', ''2.18.4'')] None)) = Inr []
   \<and> get_model_pkgs [(''en_core_web_sm'', [''2.0.0''])] (all_models_of example_matrix)
        (env_working_set (example_env ''2.0.0'' 200 [(''requests'', ''2.18.4'')] None)) = []
   \<and> validate (example_env ''2.0.0'' 200 [(''requests'', ''2.18.4'')] None) =
       ([HttpGet ''https://raw.githubusercontent.com/explosion/spacy-models/master/compatibility.json'',
         Prints (Some ''Installed models (spaCy v2.0.0)'') [''/usr/lib/python3/site-packages/spacy''],
         Prints None [''No models found in your current environment.'']],
        Some (SysExit 0))"
proof -
  have alpha: "reformat_version ''2.0.0'' = ''2.0.0''"
    by (simp add: reformat_version_def str_replace.simps)
  have m: "map_of (reformat_matrix example_matrix) ''2.0.0'' = Some [(''en_core_web_sm'', [''2.0.0''])]"
    by (simp add: reformat_matrix_def example_matrix_def alpha)
  have l: "get_model_links [(''en_core_web_sm'', [''2.0.0''])] None = Inr []"
    by (simp add: get_model_links_def)
  have r: "str_replace ''-'' ''_'' ''requests'' = ''requests''"
    by (simp add: str_replace.simps)
  have p: "get_model_pkgs [(''en_core_web_sm'', [''2.0.0''])] (all_models_of example_matrix)
             [(''requests'', ''2.18.4'')] = []"
    by (simp add: get_model_pkgs_def all_models_of_def example_matrix_def r)
  show ?thesis
    using validate_no_models [of "example_env ''2.0.0'' 200 [(''requests'', ''2.18.4'')] None"
        example_matrix "[(''en_core_web_sm'', [''2.0.0''])]"] m l p
    by (simp add: example_env_def)
qed

end
